theory Spec2Isabelle
  imports Complex_Main
begin

section \<open>Cart engine (CartProvider, App.js lines 51-124)\<close>

text \<open>
  Identifiers delivered by the backend are JavaScript strings (the order screen calls
  \<open>order.id.slice(-8)\<close>), so food item ids and restaurant ids are modelled as \<open>string\<close>.
  Quantities are the integers the \<open>+\<close>/\<open>-\<close> buttons produce; prices are only carried
  around by the operations modelled here and are taken as exact rationals.
\<close>

text \<open>The fields of a menu item that \<open>addToCart\<close> reads: \<open>id\<close>, \<open>name\<close>, \<open>price\<close>,
  \<open>restaurant_id\<close>.\<close>

record food_item =
  item_id :: string
  item_name :: string
  item_price :: rat
  item_restaurant_id :: string

text \<open>The object literal pushed onto the cart at lines 72-78.\<close>

record cart_line =
  food_item_id :: string
  quantity :: int
  name :: string
  price :: rat
  restaurant_id :: string

text \<open>The two \<open>useState\<close> cells of \<open>CartProvider\<close>; \<open>None\<close> is JavaScript's \<open>null\<close>.\<close>

record cart_state =
  cart :: "cart_line list"
  currentRestaurant :: "string option"

definition initial_cart :: cart_state where
  "initial_cart = \<lparr>cart = [], currentRestaurant = None\<rparr>"

text \<open>JavaScript truthiness of a value that is \<open>null\<close> or a string: \<open>null\<close> and the empty
  string are falsy, every other string is truthy.\<close>

definition truthy :: "string option \<Rightarrow> bool" where
  "truthy v = (case v of None \<Rightarrow> False | Some s \<Rightarrow> s \<noteq> [])"

text \<open>
  \<open>addToCart\<close> (lines 55-81). Each render of \<open>CartProvider\<close> creates the function
  anew, and the guard of line 57 reads the \<open>currentRestaurant\<close> that render saw: the
  argument \<open>rendered\<close>. The update of line 63 is functional, so it works on the latest
  cart whatever the render saw. The queued \<open>setCart([])\<close> runs before that update, so the
  updater's \<open>prevCart\<close> is the emptied list when the guard holds and the latest list
  otherwise. The default argument \<open>quantity = 1\<close> is a call with quantity 1.
\<close>

definition addToCart_rendered ::
  "string option \<Rightarrow> food_item \<Rightarrow> int \<Rightarrow> cart_state \<Rightarrow> cart_state" where
  "addToCart_rendered rendered foodItem qty st =
    (let prevCart =
       (if truthy rendered \<and> rendered \<noteq> Some (item_restaurant_id foodItem)
        then [] else cart st)
     in \<lparr>cart =
          (case find (\<lambda>item. food_item_id item = item_id foodItem) prevCart of
             Some existingItem \<Rightarrow>
               map (\<lambda>item. if food_item_id item = item_id foodItem
                            then item\<lparr>quantity := quantity item + qty\<rparr>
                            else item) prevCart
           | None \<Rightarrow>
               prevCart @ [\<lparr>food_item_id = item_id foodItem,
                            quantity = qty,
                            name = item_name foodItem,
                            price = item_price foodItem,
                            restaurant_id = item_restaurant_id foodItem\<rparr>]),
         currentRestaurant = Some (item_restaurant_id foodItem)\<rparr>)"

text \<open>A single call of \<open>addToCart\<close> from the render that shows the state it acts on, as
  a click on a menu card makes it.\<close>

definition addToCart :: "food_item \<Rightarrow> int \<Rightarrow> cart_state \<Rightarrow> cart_state" where
  "addToCart foodItem qty st = addToCart_rendered (currentRestaurant st) foodItem qty st"

text \<open>\<open>removeFromCart\<close> (lines 83-85).\<close>

definition removeFromCart :: "string \<Rightarrow> cart_state \<Rightarrow> cart_state" where
  "removeFromCart foodItemId st =
     st\<lparr>cart := filter (\<lambda>item. food_item_id item \<noteq> foodItemId) (cart st)\<rparr>"

text \<open>\<open>updateQuantity\<close> (lines 87-100).\<close>

definition updateQuantity :: "string \<Rightarrow> int \<Rightarrow> cart_state \<Rightarrow> cart_state" where
  "updateQuantity foodItemId qty st =
     (if qty \<le> 0 then removeFromCart foodItemId st
      else st\<lparr>cart := map (\<lambda>item. if food_item_id item = foodItemId
                                   then item\<lparr>quantity := qty\<rparr>
                                   else item) (cart st)\<rparr>)"

text \<open>\<open>clearCart\<close> (lines 102-105).\<close>

definition clearCart :: "cart_state \<Rightarrow> cart_state" where
  "clearCart st = st\<lparr>cart := [], currentRestaurant := None\<rparr>"

text \<open>
  What happens to the provider over time: it renders, which makes the functions it hands out
  see the current \<open>currentRestaurant\<close>, or a consumer calls the \<open>addToCart\<close> handed out
  by the latest render. Calls with no render between them (two calls in one event handler)
  share one closure. \<open>dispatch events rendered st\<close> runs the events from state \<open>st\<close>, last
  rendered with \<open>currentRestaurant = rendered\<close>.
\<close>

datatype cart_event = Render | AddToCart food_item int

fun dispatch :: "cart_event list \<Rightarrow> string option \<Rightarrow> cart_state \<Rightarrow> cart_state" where
  "dispatch [] rendered st = st"
| "dispatch (Render # events) rendered st = dispatch events (currentRestaurant st) st"
| "dispatch (AddToCart foodItem qty # events) rendered st =
     dispatch events rendered (addToCart_rendered rendered foodItem qty st)"

text \<open>The calls of a list, each after a render of its own.\<close>

fun rendered_calls :: "(food_item \<times> int) list \<Rightarrow> cart_event list" where
  "rendered_calls [] = []"
| "rendered_calls ((foodItem, qty) # calls) =
     Render # AddToCart foodItem qty # rendered_calls calls"

text \<open>The single-restaurant property of a cart state: every line is owned by the restaurant
  the current-restaurant cell names.\<close>

definition single_restaurant :: "cart_state \<Rightarrow> bool" where
  "single_restaurant st =
     list_all (\<lambda>item. currentRestaurant st = Some (restaurant_id item)) (cart st)"


section \<open>Session store (AuthProvider, App.js lines 11-46)\<close>

text \<open>
  The platform function \<open>JSON.parse\<close> is not part of the repository. It is modelled as a
  recursive-descent recogniser of the JSON grammar that returns the syntax tree, with numbers
  and string contents kept as their lexemes, and \<open>SyntaxError\<close> where the real function
  throws. The recursion on nested values is bounded by fuel: every second call consumes a
  character, so \<open>2 * length s + 2\<close> steps are never used up on an input of length
  \<open>length s\<close>.
\<close>

datatype json =
    JNull
  | JBool bool
  | JNumber string
  | JString string
  | JArray "json list"
  | JObject "(string \<times> json) list"

datatype js_error = SyntaxError

definition is_json_ws :: "char \<Rightarrow> bool" where
  "is_json_ws c = (c \<in> set [CHR 0x20, CHR 0x09, CHR 0x0A, CHR 0x0D])"

definition skip_ws :: "string \<Rightarrow> string" where
  "skip_ws s = dropWhile is_json_ws s"

definition is_digit :: "char \<Rightarrow> bool" where
  "is_digit c = (c \<in> set ''0123456789'')"

definition is_hex :: "char \<Rightarrow> bool" where
  "is_hex c = (c \<in> set ''0123456789abcdefABCDEF'')"

text \<open>The characters after an opening double quote, up to the closing one. A backslash
  must start one of the escapes of the grammar; control characters are refused.\<close>

fun lex_string :: "string \<Rightarrow> string \<Rightarrow> (string \<times> string) option" where
  "lex_string acc [] = None"
| "lex_string acc [c] = (if c = CHR 0x22 then Some (rev acc, []) else None)"
| "lex_string acc (c # e # cs) =
     (if c = CHR 0x22 then Some (rev acc, e # cs)
      else if c = CHR 0x5C then
        (if e \<in> set [CHR 0x22, CHR 0x5C, CHR ''/'', CHR ''b'', CHR ''f'', CHR ''n'',
                      CHR ''r'', CHR ''t'']
         then lex_string (e # c # acc) cs
         else if e = CHR ''u'' \<and> 4 \<le> length cs \<and> list_all is_hex (take 4 cs)
         then lex_string (e # c # acc) cs
         else None)
      else if (of_char c :: nat) < 0x20 then None
      else lex_string (c # acc) (e # cs))"

text \<open>A run of at least one digit.\<close>

definition lex_digits :: "string \<Rightarrow> (string \<times> string) option" where
  "lex_digits s =
     (if takeWhile is_digit s = [] then None
      else Some (takeWhile is_digit s, dropWhile is_digit s))"

text \<open>Integer part: a single \<open>0\<close>, or a run of digits that does not start with \<open>0\<close>.\<close>

definition lex_int :: "string \<Rightarrow> (string \<times> string) option" where
  "lex_int s =
     (case s of
        [] \<Rightarrow> None
      | c # cs \<Rightarrow> if c = CHR ''0'' then Some ([c], cs) else lex_digits s)"

definition lex_frac :: "string \<Rightarrow> (string \<times> string) option" where
  "lex_frac s =
     (case s of
        [] \<Rightarrow> Some ([], s)
      | c # cs \<Rightarrow>
          if c = CHR ''.'' then
            (case lex_digits cs of None \<Rightarrow> None | Some (ds, r) \<Rightarrow> Some (c # ds, r))
          else Some ([], s))"

definition lex_exp :: "string \<Rightarrow> (string \<times> string) option" where
  "lex_exp s =
     (case s of
        [] \<Rightarrow> Some ([], s)
      | c # cs \<Rightarrow>
          if c = CHR ''e'' \<or> c = CHR ''E'' then
            (case cs of
               [] \<Rightarrow> None
             | g # gs \<Rightarrow>
                 if g = CHR ''+'' \<or> g = CHR ''-'' then
                   (case lex_digits gs of
                      None \<Rightarrow> None | Some (ds, r) \<Rightarrow> Some (c # g # ds, r))
                 else
                   (case lex_digits cs of
                      None \<Rightarrow> None | Some (ds, r) \<Rightarrow> Some (c # ds, r)))
          else Some ([], s))"

definition lex_number :: "string \<Rightarrow> (string \<times> string) option" where
  "lex_number s =
     (let (sign, s1) =
            (case s of [] \<Rightarrow> ([], s)
             | c # cs \<Rightarrow> if c = CHR ''-'' then ([c], cs) else ([], s))
      in case lex_int s1 of
           None \<Rightarrow> None
         | Some (ip, s2) \<Rightarrow>
             (case lex_frac s2 of
                None \<Rightarrow> None
              | Some (fp, s3) \<Rightarrow>
                  (case lex_exp s3 of
                     None \<Rightarrow> None
                   | Some (ep, s4) \<Rightarrow> Some (sign @ ip @ fp @ ep, s4))))"

fun parse_value :: "nat \<Rightarrow> string \<Rightarrow> (json \<times> string) option"
  and parse_elements :: "nat \<Rightarrow> json list \<Rightarrow> string \<Rightarrow> (json \<times> string) option"
  and parse_members :: "nat \<Rightarrow> (string \<times> json) list \<Rightarrow> string \<Rightarrow> (json \<times> string) option"
where
  "parse_value 0 s = None"
| "parse_value (Suc n) s =
     (case skip_ws s of
        [] \<Rightarrow> None
      | c # cs \<Rightarrow>
          if c = CHR ''{'' then
            (case skip_ws cs of
               [] \<Rightarrow> None
             | d # ds \<Rightarrow> if d = CHR ''}'' then Some (JObject [], ds)
                         else parse_members n [] cs)
          else if c = CHR ''['' then
            (case skip_ws cs of
               [] \<Rightarrow> None
             | d # ds \<Rightarrow> if d = CHR '']'' then Some (JArray [], ds)
                         else parse_elements n [] cs)
          else if c = CHR 0x22 then
            (case lex_string [] cs of
               None \<Rightarrow> None | Some (str, r) \<Rightarrow> Some (JString str, r))
          else if c = CHR ''-'' \<or> is_digit c then
            (case lex_number (c # cs) of
               None \<Rightarrow> None | Some (num, r) \<Rightarrow> Some (JNumber num, r))
          else if take 4 (c # cs) = ''true'' then Some (JBool True, drop 4 (c # cs))
          else if take 5 (c # cs) = ''false'' then Some (JBool False, drop 5 (c # cs))
          else if take 4 (c # cs) = ''null'' then Some (JNull, drop 4 (c # cs))
          else None)"
| "parse_elements 0 acc s = None"
| "parse_elements (Suc n) acc s =
     (case parse_value n s of
        None \<Rightarrow> None
      | Some (v, r) \<Rightarrow>
          (case skip_ws r of
             [] \<Rightarrow> None
           | c # cs \<Rightarrow>
               if c = CHR '','' then parse_elements n (v # acc) cs
               else if c = CHR '']'' then Some (JArray (rev (v # acc)), cs)
               else None))"
| "parse_members 0 acc s = None"
| "parse_members (Suc n) acc s =
     (case skip_ws s of
        [] \<Rightarrow> None
      | q # qs \<Rightarrow>
          if q \<noteq> CHR 0x22 then None
          else
            (case lex_string [] qs of
               None \<Rightarrow> None
             | Some (k, r1) \<Rightarrow>
                 (case skip_ws r1 of
                    [] \<Rightarrow> None
                  | c # r2 \<Rightarrow>
                      if c \<noteq> CHR '':'' then None
                      else
                        (case parse_value n r2 of
                           None \<Rightarrow> None
                         | Some (v, r3) \<Rightarrow>
                             (case skip_ws r3 of
                                [] \<Rightarrow> None
                              | d # r4 \<Rightarrow>
                                  if d = CHR '','' then parse_members n ((k, v) # acc) r4
                                  else if d = CHR ''}''
                                  then Some (JObject (rev ((k, v) # acc)), r4)
                                  else None)))))"

definition JSON_parse :: "string \<Rightarrow> js_error + json" where
  "JSON_parse s =
     (case parse_value (2 * length s + 2) s of
        None \<Rightarrow> Inl SyntaxError
      | Some (v, r) \<Rightarrow> if skip_ws r = [] then Inr v else Inl SyntaxError)"

text \<open>The two \<open>useState\<close> cells of \<open>AuthProvider\<close>: \<open>user\<close> starts as \<open>null\<close>,
  \<open>loading\<close> as \<open>true\<close>.\<close>

record auth_state =
  user :: json
  loading :: bool

definition initial_auth :: auth_state where
  "initial_auth = \<lparr>user = JNull, loading = True\<rparr>"

text \<open>
  The mount effect of \<open>AuthProvider\<close> (lines 15-22), which the specification calls
  \<open>restore()\<close>. \<open>localStorage\<close> is a map from keys to strings and \<open>getItem\<close> of a
  missing key is \<open>null\<close>. An exception of \<open>JSON.parse\<close> leaves the effect at line 19:
  nothing catches it, and \<open>setLoading(false)\<close> is not reached.
\<close>

definition restore :: "(string \<rightharpoonup> string) \<Rightarrow> auth_state \<Rightarrow> js_error + auth_state" where
  "restore localStorage st =
     (let savedUser = localStorage ''zyppy_user'' in
      if truthy savedUser then
        (case JSON_parse (case savedUser of Some s \<Rightarrow> s | None \<Rightarrow> []) of
           Inl e \<Rightarrow> Inl e
         | Inr v \<Rightarrow> Inr (st\<lparr>user := v, loading := False\<rparr>))
      else Inr (st\<lparr>loading := False\<rparr>))"


section \<open>Checkout submission (CheckoutModal, App.js lines 594-639)\<close>

text \<open>
  \<open>String.prototype.trim\<close> removes white space and line terminators from both ends.
  A \<open>char\<close> is one byte here, so the white space of the model is the part of JavaScript's
  that lies below code point 256: tab, line feed, vertical tab, form feed, carriage return,
  space and no-break space.
\<close>

definition is_white_space :: "char \<Rightarrow> bool" where
  "is_white_space c =
     (c \<in> set [CHR 0x09, CHR 0x0A, CHR 0x0B, CHR 0x0C, CHR 0x0D, CHR 0x20, CHR 0xA0])"

definition trim :: "string \<Rightarrow> string" where
  "trim s = rev (dropWhile is_white_space (rev (dropWhile is_white_space s)))"

text \<open>The body of \<open>POST /orders\<close> built at lines 609-617; \<open>order_items\<close> pairs each
  \<open>food_item_id\<close> with its \<open>quantity\<close>.\<close>

record order_data =
  order_user_id :: string
  order_restaurant_id :: "string option"
  order_items :: "(string \<times> int) list"
  order_delivery_address :: string

text \<open>The requests \<open>handleCheckout\<close> can send: the order, and the payment session with
  its \<open>order_id\<close> and \<open>origin_url\<close>.\<close>

datatype request =
    PostOrders order_data
  | PostPaymentsCheckout string string

text \<open>The backend as \<open>handleCheckout\<close> sees it: each call answers with the field the code
  reads (the order's \<open>id\<close>, the session's \<open>url\<close>) or rejects (\<open>None\<close>).\<close>

record backend =
  post_orders :: "order_data \<Rightarrow> string option"
  post_payments_checkout :: "string \<Rightarrow> string \<Rightarrow> string option"

text \<open>Everything \<open>handleCheckout\<close> can read or change: the cart context, the modal's
  \<open>loading\<close> flag, the alerts shown, the requests sent and the page location.\<close>

record checkout_state =
  cart_context :: cart_state
  modal_loading :: bool
  alerts :: "string list"
  requests :: "request list"
  location_href :: "string option"

text \<open>\<open>handleCheckout\<close> (lines 600-639) for a logged-in user with id \<open>user_id\<close>, on a page
  of origin \<open>origin\<close>, with \<open>address\<close> in the text area. The \<open>finally\<close> block resets
  \<open>loading\<close> on every path that entered the \<open>try\<close>.\<close>

definition handleCheckout ::
  "backend \<Rightarrow> string \<Rightarrow> string \<Rightarrow> string \<Rightarrow> checkout_state \<Rightarrow> checkout_state" where
  "handleCheckout be user_id origin address st =
     (if trim address = [] then
        st\<lparr>alerts := alerts st @ [''Please enter a delivery address'']\<rparr>
      else
        let orderData =
              \<lparr>order_user_id = user_id,
               order_restaurant_id = currentRestaurant (cart_context st),
               order_items =
                 map (\<lambda>item. (food_item_id item, quantity item)) (cart (cart_context st)),
               order_delivery_address = address\<rparr>;
            st1 = st\<lparr>modal_loading := True,
                     requests := requests st @ [PostOrders orderData]\<rparr>
        in case post_orders be orderData of
             None \<Rightarrow>
               st1\<lparr>alerts := alerts st1 @ [''Checkout failed. Please try again.''],
                   modal_loading := False\<rparr>
           | Some order_id \<Rightarrow>
               (let st2 = st1\<lparr>requests :=
                                requests st1 @ [PostPaymentsCheckout order_id origin]\<rparr>
                in case post_payments_checkout be order_id origin of
                     None \<Rightarrow>
                       st2\<lparr>alerts := alerts st2 @ [''Checkout failed. Please try again.''],
                           modal_loading := False\<rparr>
                   | Some url \<Rightarrow>
                       st2\<lparr>location_href := Some url, modal_loading := False\<rparr>))"


section \<open>Payment status polling (OrderSuccess, App.js lines 693-734)\<close>

text \<open>The values of the \<open>paymentStatus\<close> cell: the strings \<open>checking\<close>, \<open>success\<close>,
  \<open>failed\<close>, \<open>timeout\<close> and \<open>error\<close>.\<close>

datatype payment_state = Checking | Success | Failed | Timeout | Error

text \<open>The outcome of \<open>GET /payments/status/{session_id}\<close>: the request rejects, or it
  answers with the two fields the code reads.\<close>

datatype response =
    TransportFailure
  | Response (payment_status: string) (status: string)

text \<open>
  The polling component and its surroundings: the \<open>paymentStatus\<close> cell, the callbacks
  handed to \<open>setTimeout\<close> and not yet run (delay in milliseconds, then the two arguments
  of the scheduled call), the session ids of the status queries sent so far, and whether the
  component is still mounted.
\<close>

record poll =
  paymentStatus :: payment_state
  timers :: "(nat \<times> string \<times> nat) list"
  queries :: "string list"
  mounted :: bool

definition initial_poll :: poll where
  "initial_poll = \<lparr>paymentStatus = Checking, timers = [], queries = [], mounted = True\<rparr>"

definition maxAttempts :: nat where
  "maxAttempts = 5"

text \<open>The state setter of \<open>useState\<close>: React drops an update of a component that has been
  unmounted.\<close>

definition setPaymentStatus :: "payment_state \<Rightarrow> poll \<Rightarrow> poll" where
  "setPaymentStatus v c = (if mounted c then c\<lparr>paymentStatus := v\<rparr> else c)"

text \<open>
  \<open>checkPaymentStatus\<close> (lines 709-734), from the call to the end of the continuation after
  \<open>await\<close>. The backend is \<open>env\<close>: \<open>env k\<close> is the outcome of the query sent when \<open>k\<close>
  queries have been sent before it.
\<close>

definition checkPaymentStatus :: "(nat \<Rightarrow> response) \<Rightarrow> string \<Rightarrow> nat \<Rightarrow> poll \<Rightarrow> poll" where
  "checkPaymentStatus env sessionId attempts c =
     (if attempts \<ge> maxAttempts then setPaymentStatus Timeout c
      else
        let c1 = c\<lparr>queries := queries c @ [sessionId]\<rparr> in
        case env (length (queries c)) of
          TransportFailure \<Rightarrow> setPaymentStatus Error c1
        | Response ps s \<Rightarrow>
            if ps = ''paid'' then setPaymentStatus Success c1
            else if s = ''expired'' then setPaymentStatus Failed c1
            else c1\<lparr>timers := timers c1 @ [(2000, sessionId, attempts + 1)]\<rparr>)"

text \<open>The mount effect (lines 699-707) as far as polling goes: with a \<open>session_id\<close> in the
  URL it starts polling at the default \<open>attempts = 0\<close>. (Its \<open>clearCart()\<close> acts on the cart
  context, which is no part of \<open>poll\<close>.)\<close>

definition mount :: "(nat \<Rightarrow> response) \<Rightarrow> string option \<Rightarrow> poll \<Rightarrow> poll" where
  "mount env sessionId c =
     (case sessionId of
        None \<Rightarrow> c
      | Some sid \<Rightarrow> if sid = [] then c else checkPaymentStatus env sid 0 c)"

text \<open>What can happen to a mounted poll afterwards: the oldest pending timer elapses and
  runs its callback, or the screen is torn down. The effect returns no cleanup function and
  the handle of \<open>setTimeout\<close> is never kept, so tearing down cancels nothing.\<close>

datatype event = TimerFires | Unmount

definition fire :: "(nat \<Rightarrow> response) \<Rightarrow> poll \<Rightarrow> poll" where
  "fire env c =
     (case timers c of
        [] \<Rightarrow> c
      | (delay, sessionId, attempts) # rest \<Rightarrow>
          checkPaymentStatus env sessionId attempts (c\<lparr>timers := rest\<rparr>))"

definition unmount :: "poll \<Rightarrow> poll" where
  "unmount c = c\<lparr>mounted := False\<rparr>"

fun step :: "(nat \<Rightarrow> response) \<Rightarrow> poll \<Rightarrow> event \<Rightarrow> poll" where
  "step env c TimerFires = fire env c"
| "step env c Unmount = unmount c"

definition run :: "(nat \<Rightarrow> response) \<Rightarrow> event list \<Rightarrow> poll \<Rightarrow> poll" where
  "run env evs c = foldl (step env) c evs"

text \<open>A query outcome that settles nothing: the request succeeds, the payment is not
  \<open>paid\<close> and the session is not \<open>expired\<close>.\<close>

definition unresolved :: "response \<Rightarrow> bool" where
  "unresolved r =
     (case r of TransportFailure \<Rightarrow> False
      | Response ps s \<Rightarrow> ps \<noteq> ''paid'' \<and> s \<noteq> ''expired'')"

definition terminal :: "payment_state \<Rightarrow> bool" where
  "terminal v = (v = Success \<or> v = Failed \<or> v = Timeout \<or> v = Error)"

text \<open>The polling chain: no timer is pending, or exactly one is and the screen still
  shows \<open>checking\<close>.\<close>

definition single_chain :: "poll \<Rightarrow> bool" where
  "single_chain c =
     (timers c = [] \<or> (paymentStatus c = Checking \<and> length (timers c) = 1))"


section \<open>Sample data\<close>

text \<open>Menu items of two restaurants, one item without an owner id, and a later version of
  the first item with another name and price.\<close>

definition soup :: food_item where
  "soup = \<lparr>item_id = ''f1'', item_name = ''Soup'', item_price = 10,
           item_restaurant_id = ''R1''\<rparr>"

definition stew :: food_item where
  "stew = \<lparr>item_id = ''f2'', item_name = ''Stew'', item_price = 5,
           item_restaurant_id = ''R1''\<rparr>"

definition cake :: food_item where
  "cake = \<lparr>item_id = ''f3'', item_name = ''Cake'', item_price = 7,
           item_restaurant_id = ''R2''\<rparr>"

definition unowned :: food_item where
  "unowned = \<lparr>item_id = ''f0'', item_name = ''Water'', item_price = 1,
              item_restaurant_id = []\<rparr>"

definition soup_repriced :: food_item where
  "soup_repriced = \<lparr>item_id = ''f1'', item_name = ''Soup (large)'', item_price = 12,
                    item_restaurant_id = ''R1''\<rparr>"

definition soup_line :: "int \<Rightarrow> cart_line" where
  "soup_line q = \<lparr>food_item_id = ''f1'', quantity = q, name = ''Soup'', price = 10,
                  restaurant_id = ''R1''\<rparr>"

definition one_soup :: cart_state where
  "one_soup = \<lparr>cart = [soup_line 2], currentRestaurant = Some ''R1''\<rparr>"

text \<open>A payment session that stays open, one that expires at the third query, one found
  expired and one found paid at the first, and a backend out of reach.\<close>

definition still_open :: "nat \<Rightarrow> response" where
  "still_open k = Response ''unpaid'' ''open''"

definition expires_third :: "nat \<Rightarrow> response" where
  "expires_third k =
     (if k = 2 then Response ''unpaid'' ''expired'' else Response ''unpaid'' ''open'')"

definition already_expired :: "nat \<Rightarrow> response" where
  "already_expired k = Response ''unpaid'' ''expired''"

definition paid_at_once :: "nat \<Rightarrow> response" where
  "paid_at_once k = Response ''paid'' ''complete''"

definition unreachable :: "nat \<Rightarrow> response" where
  "unreachable k = TransportFailure"

definition accepting :: backend where
  "accepting = \<lparr>post_orders = (\<lambda>d. Some ''o1''),
                post_payments_checkout = (\<lambda>order_id origin. Some ''https://pay/o1'')\<rparr>"

definition at_checkout :: checkout_state where
  "at_checkout = \<lparr>cart_context = one_soup, modal_loading = False, alerts = [],
                  requests = [], location_href = None\<rparr>"

text \<open>The text of a stored session record, \<open>{"id":"u1", "name": "Ann"}\<close>.\<close>

definition quoted :: "string \<Rightarrow> string" where
  "quoted s = CHR 0x22 # s @ [CHR 0x22]"

definition saved_session :: string where
  "saved_session =
     ''{'' @ quoted ''id'' @ '':'' @ quoted ''u1'' @ '', '' @
     quoted ''name'' @ '': '' @ quoted ''Ann'' @ ''}''"


section \<open>Cart engine: properties\<close>

text \<open>
  C7. For every cart state, item id and quantity: with a quantity of zero or less
  \<open>updateQuantity\<close> yields exactly the state \<open>removeFromCart\<close> yields; with a positive
  quantity it keeps every line in place, sets the quantity of each line with that id to the
  given number (not adding to the old one), and changes nothing else.
\<close>

theorem updateQuantity_floor_and_exact:
  "(q \<le> 0 \<longrightarrow> updateQuantity i q st = removeFromCart i st) \<and>
   (0 < q \<longrightarrow>
      currentRestaurant (updateQuantity i q st) = currentRestaurant st \<and>
      length (cart (updateQuantity i q st)) = length (cart st) \<and>
      (\<forall>k < length (cart st).
         cart (updateQuantity i q st) ! k =
           (if food_item_id (cart st ! k) = i then (cart st ! k)\<lparr>quantity := q\<rparr>
            else cart st ! k)))"
  by (simp add: updateQuantity_def)

text \<open>Both branches on a cart holding two soups: quantity 0 removes the line, quantity 7
  overwrites the 2.\<close>

theorem updateQuantity_floor_and_exact_witness:
  "updateQuantity ''f1'' 0 one_soup = removeFromCart ''f1'' one_soup \<and>
   cart (removeFromCart ''f1'' one_soup) = [] \<and>
   cart (updateQuantity ''f1'' 7 one_soup) ! 0 = soup_line 7"
  using updateQuantity_floor_and_exact [of 0 "''f1''" one_soup]
    updateQuantity_floor_and_exact [of 7 "''f1''" one_soup]
  by (simp add: one_soup_def soup_line_def removeFromCart_def)

text \<open>
  C9. \<open>removeFromCart\<close> and \<open>updateQuantity\<close> leave the current-restaurant cell as it
  was, also when the line removed was the last one; \<open>clearCart\<close> sets it to \<open>null\<close>, and
  \<open>addToCart\<close> never does.
\<close>

theorem currentRestaurant_frame:
  "currentRestaurant (removeFromCart i st) = currentRestaurant st \<and>
   currentRestaurant (updateQuantity i q st) = currentRestaurant st \<and>
   currentRestaurant (clearCart st) = None \<and>
   currentRestaurant (addToCart foodItem n st) \<noteq> None \<and>
   (cart st = [l] \<and> food_item_id l = i \<longrightarrow>
      cart (removeFromCart i st) = [] \<and>
      currentRestaurant (removeFromCart i st) = currentRestaurant st)"
  by (simp add: removeFromCart_def updateQuantity_def clearCart_def addToCart_def
        addToCart_rendered_def Let_def)

text \<open>Removing the only line of a cart of restaurant R1 empties the list and keeps R1.\<close>

theorem currentRestaurant_frame_witness:
  "cart one_soup = [soup_line 2] \<and> food_item_id (soup_line 2) = ''f1'' \<and>
   cart (removeFromCart ''f1'' one_soup) = [] \<and>
   currentRestaurant (removeFromCart ''f1'' one_soup) = Some ''R1''"
  using currentRestaurant_frame [of "''f1''" one_soup 0 soup 1 "soup_line 2"]
  by (simp add: one_soup_def soup_line_def)

text \<open>
  C10. When the cart of the item's restaurant already holds a line with the item's id,
  \<open>addToCart\<close> keeps every line in place and adds the given quantity to the lines with
  that id; in particular the unit price and the name stored in each line stay as they were,
  whatever price and name the item passed in carries.
\<close>

theorem addToCart_existing_line:
  assumes "\<exists>l \<in> set (cart st). food_item_id l = item_id foodItem"
    and "currentRestaurant st = Some (item_restaurant_id foodItem)"
  shows "length (cart (addToCart foodItem q st)) = length (cart st) \<and>
     (\<forall>k < length (cart st).
        cart (addToCart foodItem q st) ! k =
          (if food_item_id (cart st ! k) = item_id foodItem
           then (cart st ! k)\<lparr>quantity := quantity (cart st ! k) + q\<rparr>
           else cart st ! k) \<and>
        price (cart (addToCart foodItem q st) ! k) = price (cart st ! k) \<and>
        name (cart (addToCart foodItem q st) ! k) = name (cart st ! k))"
proof -
  from assms(1)
  have "find (\<lambda>item. food_item_id item = item_id foodItem) (cart st) \<noteq> None"
    by (auto simp: find_None_iff)
  then obtain e
    where "find (\<lambda>item. food_item_id item = item_id foodItem) (cart st) = Some e"
    by blast
  with assms(2) have "cart (addToCart foodItem q st) =
     map (\<lambda>item. if food_item_id item = item_id foodItem
                  then item\<lparr>quantity := quantity item + q\<rparr> else item) (cart st)"
    by (simp add: addToCart_def addToCart_rendered_def)
  then show ?thesis by simp
qed

text \<open>Adding the renamed, repriced soup to a cart with two soups gives three soups at the
  old name and price.\<close>

theorem addToCart_existing_line_witness:
  "food_item_id (soup_line 2) = item_id soup_repriced \<and>
   currentRestaurant one_soup = Some (item_restaurant_id soup_repriced) \<and>
   cart (addToCart soup_repriced 1 one_soup) ! 0 = soup_line 3 \<and>
   price (cart (addToCart soup_repriced 1 one_soup) ! 0) = 10 \<and>
   name (cart (addToCart soup_repriced 1 one_soup) ! 0) = ''Soup''"
proof -
  have h1: "\<exists>l \<in> set (cart one_soup). food_item_id l = item_id soup_repriced"
    by (simp add: one_soup_def soup_line_def soup_repriced_def)
  have h2: "currentRestaurant one_soup = Some (item_restaurant_id soup_repriced)"
    by (simp add: one_soup_def soup_repriced_def)
  show ?thesis
    using addToCart_existing_line [OF h1 h2, of 1] h2
    by (simp add: one_soup_def soup_line_def soup_repriced_def)
qed

lemma addToCart_rendered_keeps_single:
  assumes "single_restaurant st" and "currentRestaurant st \<noteq> Some []"
  shows "single_restaurant (addToCart_rendered (currentRestaurant st) foodItem q st)"
  using assms
  by (auto simp: single_restaurant_def addToCart_rendered_def truthy_def list_all_iff Let_def
           split: option.splits)

lemma addToCart_rendered_current:
  "currentRestaurant (addToCart_rendered rendered foodItem q st) =
     Some (item_restaurant_id foodItem)"
  by (simp add: addToCart_rendered_def Let_def)

text \<open>Where the single-restaurant property does hold: every call is made after a render of
  its own and every item carries a non-empty restaurant id.\<close>

lemma rendered_calls_keep_single:
  "single_restaurant st \<Longrightarrow> currentRestaurant st \<noteq> Some [] \<Longrightarrow>
   \<forall>(foodItem, q) \<in> set (calls :: (food_item \<times> int) list).
      item_restaurant_id foodItem \<noteq> [] \<Longrightarrow>
   single_restaurant (dispatch (rendered_calls calls) rendered st)"
proof (induction calls arbitrary: st rendered)
  case Nil
  then show ?case by simp
next
  case (Cons a calls)
  obtain foodItem q where a: "a = (foodItem, q)" by (cases a)
  let ?st = "addToCart_rendered (currentRestaurant st) foodItem q st"
  have 1: "single_restaurant ?st"
    using Cons.prems(1,2) by (rule addToCart_rendered_keeps_single)
  have 2: "currentRestaurant ?st \<noteq> Some []"
    using Cons.prems(3) a by (simp add: addToCart_rendered_current)
  have 3: "\<forall>(foodItem, q) \<in> set calls. item_restaurant_id foodItem \<noteq> []"
    using Cons.prems(3) by simp
  show ?case using Cons.IH [OF 1 2 3] a by simp
qed

text \<open>
  C2. The property claimed is that after every sequence of \<open>addToCart\<close> calls from the
  empty cart all lines of the cart are owned by one restaurant, the one the
  current-restaurant cell names. The code breaks it on two runs from the empty cart, first
  rendered with \<open>currentRestaurant = null\<close>. In the first, an item whose restaurant id is
  the empty string is added, the provider renders, and a cake of R2 is added: the guard of
  line 57 takes the empty string for "no current restaurant", nothing is cleared, and the cart
  holds a line with the empty restaurant id and a line of R2. In the second, a soup of R1 and
  a cake of R2 are added with no render between the calls: the second call still reads
  \<open>null\<close> from its closure, nothing is cleared, and the cart holds lines of R1 and R2 while
  the current-restaurant cell names R2.
\<close>

theorem addToCart_mixes_restaurants:
  "map restaurant_id
     (cart (dispatch [AddToCart unowned 1, Render, AddToCart cake 1] None initial_cart))
     = [[], ''R2''] \<and>
   \<not> single_restaurant
     (dispatch [AddToCart unowned 1, Render, AddToCart cake 1] None initial_cart) \<and>
   map restaurant_id
     (cart (dispatch [AddToCart soup 1, AddToCart cake 1] None initial_cart))
     = [''R1'', ''R2''] \<and>
   currentRestaurant (dispatch [AddToCart soup 1, AddToCart cake 1] None initial_cart)
     = Some ''R2'' \<and>
   \<not> single_restaurant (dispatch [AddToCart soup 1, AddToCart cake 1] None initial_cart)"
  by (simp add: single_restaurant_def addToCart_rendered_def initial_cart_def unowned_def
        soup_def cake_def truthy_def)

text \<open>With a render between the two calls the cake of R2 replaces the soup of R1.\<close>

lemma addToCart_switches_after_render:
  "map restaurant_id
     (cart (dispatch [AddToCart soup 1, Render, AddToCart cake 1] None initial_cart))
     = [''R2'']"
  by (simp add: addToCart_rendered_def initial_cart_def soup_def cake_def truthy_def)


section \<open>Payment status polling: properties\<close>

lemma check_unresolved:
  "unresolved (env (length (queries c))) \<Longrightarrow> attempts < 5 \<Longrightarrow>
   checkPaymentStatus env sid attempts c =
     c\<lparr>queries := queries c @ [sid], timers := timers c @ [(2000, sid, attempts + 1)]\<rparr>"
  by (auto simp: checkPaymentStatus_def maxAttempts_def unresolved_def Let_def
           split: response.splits)

lemma run_snoc: "run env (evs @ [ev]) c = step env (run env evs c) ev"
  by (simp add: run_def)

lemma replicate_snoc: "replicate (Suc n) x = replicate n x @ [x]"
  by (simp add: replicate_append_same)

lemma fire_no_timer: "timers c = [] \<Longrightarrow> fire env c = c"
  by (simp add: fire_def)

text \<open>While the session stays open, the configuration after \<open>n < 5\<close> timer callbacks is
  known in full: \<open>n + 1\<close> queries sent, the next call scheduled with \<open>attempts = n + 1\<close>.\<close>

lemma polling_open:
  assumes "\<forall>k. unresolved (env k)"
  shows "n < 5 \<Longrightarrow>
    run env (replicate n TimerFires) (checkPaymentStatus env sid 0 initial_poll) =
      \<lparr>paymentStatus = Checking, timers = [(2000, sid, n + 1)],
       queries = replicate (n + 1) sid, mounted = True\<rparr>"
proof (induction n)
  case 0
  show ?case using assms by (simp add: run_def check_unresolved initial_poll_def)
next
  case (Suc n)
  then have IH:
    "run env (replicate n TimerFires) (checkPaymentStatus env sid 0 initial_poll) =
      \<lparr>paymentStatus = Checking, timers = [(2000, sid, n + 1)],
       queries = replicate (n + 1) sid, mounted = True\<rparr>"
    by simp
  have "replicate (Suc n) TimerFires = replicate n TimerFires @ [TimerFires]"
    by (rule replicate_snoc)
  then have
    "run env (replicate (Suc n) TimerFires) (checkPaymentStatus env sid 0 initial_poll) =
       fire env \<lparr>paymentStatus = Checking, timers = [(2000, sid, n + 1)],
                 queries = replicate (n + 1) sid, mounted = True\<rparr>"
    using IH by (simp add: run_snoc del: replicate_Suc)
  also have "\<dots> = \<lparr>paymentStatus = Checking, timers = [(2000, sid, Suc n + 1)],
                     queries = replicate (Suc n + 1) sid, mounted = True\<rparr>"
    using Suc.prems assms by (simp add: fire_def check_unresolved replicate_append_same)
  finally show ?case .
qed

text \<open>The fifth callback is the call with \<open>attempts = 5\<close>: it sets \<open>timeout\<close> and sends
  nothing; later timer events find no timer.\<close>

lemma polling_timeout:
  assumes "\<forall>k. unresolved (env k)"
  shows "run env (replicate (5 + m) TimerFires) (checkPaymentStatus env sid 0 initial_poll) =
      \<lparr>paymentStatus = Timeout, timers = [], queries = replicate 5 sid, mounted = True\<rparr>"
proof (induction m)
  case 0
  have "replicate 5 TimerFires = replicate 4 TimerFires @ [TimerFires]"
    by (simp add: numeral_eq_Suc)
  then have
    "run env (replicate 5 TimerFires) (checkPaymentStatus env sid 0 initial_poll) =
       fire env (run env (replicate 4 TimerFires)
                   (checkPaymentStatus env sid 0 initial_poll))"
    by (simp only: run_snoc step.simps)
  also have "\<dots> = fire env \<lparr>paymentStatus = Checking, timers = [(2000, sid, 5)],
                              queries = replicate 5 sid, mounted = True\<rparr>"
    using polling_open [OF assms, of 4 sid] by simp
  also have "\<dots> = \<lparr>paymentStatus = Timeout, timers = [],
                     queries = replicate 5 sid, mounted = True\<rparr>"
    by (simp add: fire_def checkPaymentStatus_def maxAttempts_def setPaymentStatus_def)
  finally show ?case by simp
next
  case (Suc m)
  have "replicate (5 + Suc m) TimerFires = replicate (5 + m) TimerFires @ [TimerFires]"
    by (simp only: add_Suc_right replicate_snoc)
  then have
    "run env (replicate (5 + Suc m) TimerFires) (checkPaymentStatus env sid 0 initial_poll) =
       fire env (run env (replicate (5 + m) TimerFires)
                   (checkPaymentStatus env sid 0 initial_poll))"
    by (simp only: run_snoc step.simps)
  then show ?case using Suc.IH by (simp add: fire_no_timer)
qed

text \<open>
  C1. Polling starts with \<open>checkPaymentStatus sid 0\<close>. If every status query finds the
  session unresolved, then after \<open>n < 5\<close> timer callbacks the screen still shows
  \<open>checking\<close> and \<open>n + 1\<close> queries have been sent; after five or more timer events it
  shows \<open>timeout\<close>, exactly five queries have been sent in all (attempts 0 to 4), and no
  timer is pending, so no further query follows.
\<close>

theorem polling_bounded:
  assumes "\<forall>k. unresolved (env k)"
  shows
    "(\<forall>n < 5.
        paymentStatus (run env (replicate n TimerFires)
                         (checkPaymentStatus env sid 0 initial_poll)) = Checking \<and>
        queries (run env (replicate n TimerFires)
                   (checkPaymentStatus env sid 0 initial_poll)) = replicate (n + 1) sid) \<and>
     (\<forall>n \<ge> 5.
        paymentStatus (run env (replicate n TimerFires)
                         (checkPaymentStatus env sid 0 initial_poll)) = Timeout \<and>
        queries (run env (replicate n TimerFires)
                   (checkPaymentStatus env sid 0 initial_poll)) = replicate 5 sid \<and>
        timers (run env (replicate n TimerFires)
                  (checkPaymentStatus env sid 0 initial_poll)) = [])"
proof (intro conjI allI impI)
  fix n :: nat
  assume "n < 5"
  then show
    "paymentStatus (run env (replicate n TimerFires)
                      (checkPaymentStatus env sid 0 initial_poll)) = Checking"
    "queries (run env (replicate n TimerFires)
                (checkPaymentStatus env sid 0 initial_poll)) = replicate (n + 1) sid"
    using polling_open [OF assms, of n sid] by simp_all
next
  fix n :: nat
  assume "5 \<le> n"
  then obtain m where n: "n = 5 + m" using le_Suc_ex by blast
  show
    "paymentStatus (run env (replicate n TimerFires)
                      (checkPaymentStatus env sid 0 initial_poll)) = Timeout"
    "queries (run env (replicate n TimerFires)
                (checkPaymentStatus env sid 0 initial_poll)) = replicate 5 sid"
    "timers (run env (replicate n TimerFires)
               (checkPaymentStatus env sid 0 initial_poll)) = []"
    unfolding n using polling_timeout [OF assms, of m sid] by simp_all
qed

text \<open>A session that stays open: five queries and \<open>timeout\<close> after five timer events, and
  still five queries after nine.\<close>

theorem polling_bounded_witness:
  "unresolved (still_open 0) \<and>
   paymentStatus (run still_open (replicate 4 TimerFires)
                    (checkPaymentStatus still_open ''cs_1'' 0 initial_poll)) = Checking \<and>
   paymentStatus (run still_open (replicate 5 TimerFires)
                    (checkPaymentStatus still_open ''cs_1'' 0 initial_poll)) = Timeout \<and>
   length (queries (run still_open (replicate 9 TimerFires)
                      (checkPaymentStatus still_open ''cs_1'' 0 initial_poll))) = 5"
proof -
  have h: "\<forall>k. unresolved (still_open k)"
    by (simp add: unresolved_def still_open_def)
  show ?thesis using h polling_bounded [OF h, of "''cs_1''"] by simp
qed

text \<open>
  C3. One polling step, that is one call \<open>checkPaymentStatus sid attempts\<close> below the
  attempt bound on a mounted screen, sends exactly one query and then: on a transport
  failure shows \<open>error\<close> and schedules nothing; on \<open>payment_status = paid\<close> shows
  \<open>success\<close> and schedules nothing; otherwise on \<open>status = expired\<close> shows \<open>failed\<close>
  and schedules nothing; otherwise leaves the screen as it is and schedules exactly one
  further call, 2000 ms later, with \<open>attempts + 1\<close>.
\<close>

theorem checkPaymentStatus_step:
  assumes "attempts < maxAttempts" and "mounted c"
  shows
   "queries (checkPaymentStatus env sid attempts c) = queries c @ [sid] \<and>
    (env (length (queries c)) = TransportFailure \<longrightarrow>
       paymentStatus (checkPaymentStatus env sid attempts c) = Error \<and>
       timers (checkPaymentStatus env sid attempts c) = timers c) \<and>
    (\<forall>ps s. env (length (queries c)) = Response ps s \<longrightarrow>
       (ps = ''paid'' \<longrightarrow>
          paymentStatus (checkPaymentStatus env sid attempts c) = Success \<and>
          timers (checkPaymentStatus env sid attempts c) = timers c) \<and>
       (ps \<noteq> ''paid'' \<and> s = ''expired'' \<longrightarrow>
          paymentStatus (checkPaymentStatus env sid attempts c) = Failed \<and>
          timers (checkPaymentStatus env sid attempts c) = timers c) \<and>
       (ps \<noteq> ''paid'' \<and> s \<noteq> ''expired'' \<longrightarrow>
          paymentStatus (checkPaymentStatus env sid attempts c) = paymentStatus c \<and>
          timers (checkPaymentStatus env sid attempts c) =
            timers c @ [(2000, sid, attempts + 1)]))"
  using assms
  by (cases "env (length (queries c))")
     (simp_all add: checkPaymentStatus_def setPaymentStatus_def Let_def)

text \<open>The four outcomes of the first step of a fresh screen, one backend each.\<close>

theorem checkPaymentStatus_step_witness:
  "0 < maxAttempts \<and> mounted initial_poll \<and>
   paymentStatus (checkPaymentStatus unreachable ''cs_1'' 0 initial_poll) = Error \<and>
   timers (checkPaymentStatus unreachable ''cs_1'' 0 initial_poll) = [] \<and>
   paymentStatus (checkPaymentStatus paid_at_once ''cs_1'' 0 initial_poll) = Success \<and>
   paymentStatus (checkPaymentStatus already_expired ''cs_1'' 0 initial_poll) = Failed \<and>
   paymentStatus (checkPaymentStatus still_open ''cs_1'' 0 initial_poll) = Checking \<and>
   timers (checkPaymentStatus still_open ''cs_1'' 0 initial_poll) = [(2000, ''cs_1'', 1)] \<and>
   queries (checkPaymentStatus still_open ''cs_1'' 0 initial_poll) = [''cs_1'']"
proof -
  have h1: "0 < maxAttempts" by (simp add: maxAttempts_def)
  have h2: "mounted initial_poll" by (simp add: initial_poll_def)
  have q: "queries initial_poll = []" "timers initial_poll = []"
    "paymentStatus initial_poll = Checking"
    by (simp_all add: initial_poll_def)
  show ?thesis
    using h1 h2
      checkPaymentStatus_step [OF h1 h2, of unreachable "''cs_1''"]
      checkPaymentStatus_step [OF h1 h2, of paid_at_once "''cs_1''"]
      checkPaymentStatus_step [OF h1 h2, of already_expired "''cs_1''"]
      checkPaymentStatus_step [OF h1 h2, of still_open "''cs_1''"]
    by (simp add: q unreachable_def paid_at_once_def already_expired_def still_open_def)
qed

lemma single_chain_check:
  "timers c = [] \<Longrightarrow> paymentStatus c = Checking \<Longrightarrow>
   single_chain (checkPaymentStatus env sid attempts c)"
  by (cases "env (length (queries c))")
     (simp_all add: checkPaymentStatus_def setPaymentStatus_def single_chain_def Let_def)

lemma single_chain_fire: "single_chain c \<Longrightarrow> single_chain (fire env c)"
proof (cases "timers c")
  case Nil
  assume "single_chain c"
  with Nil show ?thesis by (simp add: fire_def)
next
  case (Cons t rest)
  assume "single_chain c"
  with Cons have r: "rest = []" and p: "paymentStatus c = Checking"
    by (simp_all add: single_chain_def)
  obtain d sid a where t: "t = (d, sid, a)" by (cases t)
  have "single_chain (checkPaymentStatus env sid a (c\<lparr>timers := []\<rparr>))"
    by (rule single_chain_check) (simp_all add: p)
  with Cons r t show ?thesis by (simp add: fire_def)
qed

lemma single_chain_step: "single_chain c \<Longrightarrow> single_chain (step env c ev)"
  by (cases ev) (simp_all add: single_chain_fire, simp add: single_chain_def unmount_def)

lemma single_chain_run: "single_chain c \<Longrightarrow> single_chain (run env evs c)"
  unfolding run_def by (induction evs arbitrary: c) (simp_all add: single_chain_step)

lemma single_chain_mount: "single_chain (mount env sessionId initial_poll)"
proof (cases sessionId)
  case None
  then show ?thesis by (simp add: mount_def single_chain_def initial_poll_def)
next
  case (Some sid)
  have "single_chain (checkPaymentStatus env sid 0 initial_poll)"
    by (rule single_chain_check) (simp_all add: initial_poll_def)
  moreover have "single_chain initial_poll"
    by (simp add: single_chain_def initial_poll_def)
  ultimately show ?thesis using Some by (simp add: mount_def)
qed

lemma quiet_step:
  "timers c = [] \<Longrightarrow>
   timers (step env c ev) = [] \<and> paymentStatus (step env c ev) = paymentStatus c \<and>
   queries (step env c ev) = queries c"
  by (cases ev) (simp_all add: fire_def unmount_def)

lemma quiet_run:
  "timers c = [] \<Longrightarrow>
   timers (run env evs c) = [] \<and> paymentStatus (run env evs c) = paymentStatus c \<and>
   queries (run env evs c) = queries c"
  unfolding run_def
proof (induction evs arbitrary: c)
  case Nil
  then show ?case by simp
next
  case (Cons ev evs)
  from quiet_step [OF Cons.prems, of env ev] Cons.IH [of "step env c ev"]
  show ?case by simp
qed

text \<open>
  C4. Take any configuration the screen can be in: mounted with or without a session id,
  followed by any sequence of timer and teardown events against any backend. If it shows
  \<open>success\<close>, \<open>failed\<close>, \<open>timeout\<close> or \<open>error\<close>, then no timer is pending, and whatever
  events follow, against whatever backend, the status shown stays the same and no further
  query is sent.
\<close>

theorem terminal_stable:
  "terminal (paymentStatus (run env evs (mount env sessionId initial_poll))) \<longrightarrow>
     timers (run env evs (mount env sessionId initial_poll)) = [] \<and>
     (\<forall>env' evs'.
        paymentStatus (run env' evs' (run env evs (mount env sessionId initial_poll))) =
          paymentStatus (run env evs (mount env sessionId initial_poll)) \<and>
        queries (run env' evs' (run env evs (mount env sessionId initial_poll))) =
          queries (run env evs (mount env sessionId initial_poll)))"
proof
  let ?c = "run env evs (mount env sessionId initial_poll)"
  assume t: "terminal (paymentStatus ?c)"
  have "single_chain ?c" by (intro single_chain_run single_chain_mount)
  with t have q: "timers ?c = []" by (auto simp: single_chain_def terminal_def)
  show "timers ?c = [] \<and>
        (\<forall>env' evs'. paymentStatus (run env' evs' ?c) = paymentStatus ?c \<and>
                      queries (run env' evs' ?c) = queries ?c)"
    using q quiet_run [OF q] by simp
qed

text \<open>The session that expires at the third query: after two timer callbacks the screen
  shows \<open>failed\<close> with three queries sent, and a later timer event against a backend that
  would report the payment as paid changes neither.\<close>

theorem terminal_stable_witness:
  "terminal (paymentStatus
     (run expires_third [TimerFires, TimerFires]
        (mount expires_third (Some ''cs_1'') initial_poll))) \<and>
   paymentStatus
     (run paid_at_once [TimerFires]
        (run expires_third [TimerFires, TimerFires]
           (mount expires_third (Some ''cs_1'') initial_poll))) = Failed \<and>
   queries
     (run paid_at_once [TimerFires]
        (run expires_third [TimerFires, TimerFires]
           (mount expires_third (Some ''cs_1'') initial_poll)))
     = [''cs_1'', ''cs_1'', ''cs_1'']"
proof -
  have c: "run expires_third [TimerFires, TimerFires]
             (mount expires_third (Some ''cs_1'') initial_poll) =
           \<lparr>paymentStatus = Failed, timers = [],
            queries = [''cs_1'', ''cs_1'', ''cs_1''], mounted = True\<rparr>"
    by (simp add: run_def mount_def fire_def checkPaymentStatus_def maxAttempts_def
          initial_poll_def expires_third_def setPaymentStatus_def)
  have h: "terminal (paymentStatus
     (run expires_third [TimerFires, TimerFires]
        (mount expires_third (Some ''cs_1'') initial_poll)))"
    by (simp add: c terminal_def)
  from terminal_stable [of expires_third "[TimerFires, TimerFires]" "Some ''cs_1''"] h
  have "\<forall>env' evs'.
        paymentStatus (run env' evs' (run expires_third [TimerFires, TimerFires]
           (mount expires_third (Some ''cs_1'') initial_poll))) =
          paymentStatus (run expires_third [TimerFires, TimerFires]
           (mount expires_third (Some ''cs_1'') initial_poll)) \<and>
        queries (run env' evs' (run expires_third [TimerFires, TimerFires]
           (mount expires_third (Some ''cs_1'') initial_poll))) =
          queries (run expires_third [TimerFires, TimerFires]
           (mount expires_third (Some ''cs_1'') initial_poll))"
    by blast
  from this [rule_format, of paid_at_once "[TimerFires]"] h show ?thesis
    by (simp add: c)
qed

text \<open>
  C6, as the code has it. Tearing the screen down cancels nothing: the timers pending before
  are pending after. When the oldest of them elapses after the teardown, its callback runs:
  below the attempt bound it sends its status query, and if the session is still unresolved
  it schedules the next call under the same rule. Only the status shown by the torn-down
  screen no longer changes.
\<close>

theorem unmount_cancels_nothing:
  "timers (unmount c) = timers c \<and>
   paymentStatus (fire env (unmount c)) = paymentStatus c \<and>
   (\<forall>delay sid attempts rest.
      timers c = (delay, sid, attempts) # rest \<and> attempts < maxAttempts \<longrightarrow>
        queries (fire env (unmount c)) = queries c @ [sid] \<and>
        (unresolved (env (length (queries c))) \<longrightarrow>
           timers (fire env (unmount c)) = rest @ [(2000, sid, attempts + 1)]))"
  by (cases "env (length (queries c))")
     (auto simp: unmount_def fire_def checkPaymentStatus_def setPaymentStatus_def Let_def
        unresolved_def split: list.splits)

text \<open>A screen torn down after its first query found the session open: the timer is still
  there, and when it elapses the second query goes out and a third is scheduled.\<close>

theorem unmount_cancels_nothing_witness:
  "timers (mount still_open (Some ''cs_1'') initial_poll) = [(2000, ''cs_1'', 1)] \<and>
   1 < maxAttempts \<and> unresolved (still_open 1) \<and>
   timers (unmount (mount still_open (Some ''cs_1'') initial_poll)) = [(2000, ''cs_1'', 1)] \<and>
   queries (fire still_open (unmount (mount still_open (Some ''cs_1'') initial_poll)))
     = [''cs_1'', ''cs_1''] \<and>
   timers (fire still_open (unmount (mount still_open (Some ''cs_1'') initial_poll)))
     = [(2000, ''cs_1'', 2)]"
proof -
  have c: "mount still_open (Some ''cs_1'') initial_poll =
           \<lparr>paymentStatus = Checking, timers = [(2000, ''cs_1'', 1)],
            queries = [''cs_1''], mounted = True\<rparr>"
    by (simp add: mount_def checkPaymentStatus_def maxAttempts_def initial_poll_def
          still_open_def)
  have h: "1 < maxAttempts" "unresolved (still_open 1)"
    by (simp_all add: maxAttempts_def unresolved_def still_open_def)
  show ?thesis
    using h unmount_cancels_nothing
      [of "mount still_open (Some ''cs_1'') initial_poll" still_open]
    by (simp add: c)
qed

text \<open>The claim as the specification states it fails: after the teardown the scheduled
  callback still runs and sends a status query.\<close>

theorem unmount_cancels_nothing_counterexample:
  "queries (fire still_open (unmount (mount still_open (Some ''cs_1'') initial_poll)))
     \<noteq> queries (unmount (mount still_open (Some ''cs_1'') initial_poll))"
  by (simp add: mount_def fire_def checkPaymentStatus_def maxAttempts_def initial_poll_def
        still_open_def setPaymentStatus_def unmount_def)

section \<open>Checkout submission: properties\<close>

lemma trim_blank: "\<forall>c \<in> set s. is_white_space c \<Longrightarrow> trim s = []"
  by (auto simp: trim_def dest: set_dropWhileD)

text \<open>
  C8. With a delivery address that is empty or consists of white space only,
  \<open>handleCheckout\<close> sends no request (neither the order nor the payment session), leaves
  the cart context (lines and current restaurant) exactly as it was, does not redirect and
  does not touch the \<open>loading\<close> flag; all it does is show the alert asking for an
  address.
\<close>

theorem handleCheckout_blank_address:
  assumes "\<forall>c \<in> set address. is_white_space c"
  shows "requests (handleCheckout be user_id origin address st) = requests st \<and>
         cart_context (handleCheckout be user_id origin address st) = cart_context st \<and>
         location_href (handleCheckout be user_id origin address st) = location_href st \<and>
         modal_loading (handleCheckout be user_id origin address st) = modal_loading st \<and>
         alerts (handleCheckout be user_id origin address st) =
           alerts st @ [''Please enter a delivery address'']"
  using trim_blank [OF assms] by (simp add: handleCheckout_def)

text \<open>An address of a space, a line feed and a tab, against a backend that would accept the
  order: nothing is sent and the cart still holds the two soups.\<close>

theorem handleCheckout_blank_address_witness:
  "is_white_space (CHR 0x20) \<and> is_white_space (CHR 0x0A) \<and> is_white_space (CHR 0x09) \<and>
   requests (handleCheckout accepting ''u1'' ''https://shop''
               [CHR 0x20, CHR 0x0A, CHR 0x09] at_checkout) = [] \<and>
   cart_context (handleCheckout accepting ''u1'' ''https://shop''
                   [CHR 0x20, CHR 0x0A, CHR 0x09] at_checkout) = one_soup"
proof -
  have h: "\<forall>c \<in> set [CHR 0x20, CHR 0x0A, CHR 0x09]. is_white_space c"
    by (simp add: is_white_space_def)
  show ?thesis
    using h handleCheckout_blank_address
      [OF h, of accepting "''u1''" "''https://shop''" at_checkout]
    by (simp add: at_checkout_def)
qed

text \<open>With an address the same backend receives both requests, so the rejection above is
  the work of the address check.\<close>

lemma handleCheckout_sends:
  "requests (handleCheckout accepting ''u1'' ''https://shop'' ''1 Main St'' at_checkout) =
     [PostOrders \<lparr>order_user_id = ''u1'', order_restaurant_id = Some ''R1'',
                  order_items = [(''f1'', 2)], order_delivery_address = ''1 Main St''\<rparr>,
      PostPaymentsCheckout ''o1'' ''https://shop'']"
  by (simp add: handleCheckout_def trim_def is_white_space_def accepting_def at_checkout_def
        one_soup_def soup_line_def Let_def)


section \<open>Session store: properties\<close>

text \<open>
  C5, as the code has it. \<open>restore()\<close> does not fail when nothing (or the empty string)
  is stored under the key, and then leaves the session unset and clears \<open>loading\<close>; it does
  not fail when the stored text deserializes, and then makes the deserialized value the
  session, whatever its shape, and clears \<open>loading\<close>.
\<close>

theorem restore_deserializable:
  "(\<not> truthy (localStorage ''zyppy_user'') \<longrightarrow>
      restore localStorage st = Inr (st\<lparr>loading := False\<rparr>)) \<and>
   (\<forall>s v. localStorage ''zyppy_user'' = Some s \<and> s \<noteq> [] \<and> JSON_parse s = Inr v \<longrightarrow>
      restore localStorage st = Inr (st\<lparr>user := v, loading := False\<rparr>))"
  by (simp add: restore_def truthy_def Let_def)

text \<open>An empty store, and a store holding a session record.\<close>

theorem restore_deserializable_witness:
  "\<not> truthy (Map.empty ''zyppy_user'') \<and>
   restore Map.empty initial_auth = Inr \<lparr>user = JNull, loading = False\<rparr> \<and>
   JSON_parse saved_session = Inr (JObject [(''id'', JString ''u1''), (''name'', JString ''Ann'')]) \<and>
   restore (Map.empty(''zyppy_user'' \<mapsto> saved_session)) initial_auth =
     Inr \<lparr>user = JObject [(''id'', JString ''u1''), (''name'', JString ''Ann'')],
          loading = False\<rparr>"
proof -
  have a: "\<not> truthy (Map.empty ''zyppy_user'')" by (simp add: truthy_def)
  have p: "JSON_parse saved_session =
             Inr (JObject [(''id'', JString ''u1''), (''name'', JString ''Ann'')])"
    by code_simp
  have n: "saved_session \<noteq> []" by (simp add: saved_session_def)
  from restore_deserializable [of Map.empty initial_auth] a
  have 1: "restore Map.empty initial_auth = Inr (initial_auth\<lparr>loading := False\<rparr>)"
    by blast
  from restore_deserializable
    [of "Map.empty(''zyppy_user'' \<mapsto> saved_session)" initial_auth] p n
  have 2: "restore (Map.empty(''zyppy_user'' \<mapsto> saved_session)) initial_auth =
     Inr (initial_auth\<lparr>user := JObject [(''id'', JString ''u1''), (''name'', JString ''Ann'')],
                       loading := False\<rparr>)"
    by simp
  show ?thesis using a p 1 2 by (simp add: initial_auth_def)
qed

text \<open>The claim as the specification states it fails on stored text that is not JSON: the
  exception of \<open>JSON.parse\<close> leaves the effect, the session is not touched and \<open>loading\<close>
  is never cleared.\<close>

theorem restore_deserializable_counterexample:
  "restore (Map.empty(''zyppy_user'' \<mapsto> ''{oops'')) initial_auth = Inl SyntaxError"
  by code_simp

text \<open>Nothing checks the shape of what was stored: the text \<open>5\<close> deserializes, and the
  number becomes the session.\<close>

lemma restore_any_shape:
  "restore (Map.empty(''zyppy_user'' \<mapsto> ''5'')) initial_auth =
     Inr \<lparr>user = JNumber ''5'', loading = False\<rparr>"
  by code_simp

end
